theory Spec2Isabelle
  imports Complex_Main "HOL-Library.Sublist" "HOL-Library.Char_ord" "HOL-Library.List_Lexorder"
begin

section \<open>Python values and errors\<close>

text \<open>
  The launch scripts of \<^verbatim>\<open>ik_benchmarking\<close> handle the values that
  \<^verbatim>\<open>yaml.safe_load\<close> produces (null, booleans, integers, strings, sequences and
  mappings with string keys) and raise Python exceptions. A mapping is an association
  list read with \<open>map_of\<close>; every exception the scripts can raise is a constructor of
  \<open>error\<close>, and a computation that may raise returns \<open>error + 'a\<close>.
\<close>

datatype py_value =
    PyNone
  | PyBool bool
  | PyInt int
  | PyStr string
  | PyList "py_value list"
  | PyDict "(string \<times> py_value) list"

datatype error =
    ValueError string
  | KeyError string
  | IndexError
  | AttributeError
  | TypeError
  | SystemExit nat
  | PackageNotFoundError string
  | FileError string
  | BuilderError string

type_synonym py_dict = "(string \<times> py_value) list"

text \<open>Python truthiness, as used by \<^verbatim>\<open>parent_data if parent_data else config_data\<close>.\<close>

fun truthy :: "py_value \<Rightarrow> bool" where
  "truthy PyNone = False"
| "truthy (PyBool b) = b"
| "truthy (PyInt i) = (i \<noteq> 0)"
| "truthy (PyStr s) = (s \<noteq> [])"
| "truthy (PyList xs) = (xs \<noteq> [])"
| "truthy (PyDict kvs) = (kvs \<noteq> [])"

text \<open>\<^verbatim>\<open>d.get(key)\<close>: the value, \<^verbatim>\<open>None\<close> for an absent key, and
  \<^verbatim>\<open>AttributeError\<close> when \<^verbatim>\<open>d\<close> is not a mapping.\<close>

fun py_get :: "py_value \<Rightarrow> string \<Rightarrow> error + py_value" where
  "py_get (PyDict kvs) key = Inr (case map_of kvs key of None \<Rightarrow> PyNone | Some v \<Rightarrow> v)"
| "py_get _ key = Inl AttributeError"

text \<open>\<^verbatim>\<open>d[key]\<close> on a dictionary: \<^verbatim>\<open>KeyError\<close> for an absent key.\<close>

definition dict_item :: "py_dict \<Rightarrow> string \<Rightarrow> error + py_value" where
  "dict_item d key = (case map_of d key of None \<Rightarrow> Inl (KeyError key) | Some v \<Rightarrow> Inr v)"

text \<open>\<^verbatim>\<open>xs[i]\<close> on a list, for a non-negative literal index.\<close>

definition list_item :: "'a list \<Rightarrow> nat \<Rightarrow> error + 'a" where
  "list_item xs i = (if i < length xs then Inr (xs ! i) else Inl IndexError)"

text \<open>
  What a computation has printed: plain text, or the f-string of the launch script
  whose interpolated value is kept as a value between its literal parts.
\<close>

datatype printed = Text string | Formatted string py_value string

text \<open>Sequencing of computations that may raise, and of those that also print:
  an exception ends the computation and keeps what was printed before it.\<close>

definition bind_err :: "error + 'a \<Rightarrow> ('a \<Rightarrow> error + 'b) \<Rightarrow> error + 'b" where
  "bind_err m f = (case m of Inl e \<Rightarrow> Inl e | Inr x \<Rightarrow> f x)"

definition bind_io ::
  "printed list \<times> (error + 'a) \<Rightarrow> ('a \<Rightarrow> printed list \<times> (error + 'b)) \<Rightarrow>
   printed list \<times> (error + 'b)" where
  "bind_io m f =
     (case m of
        (out, Inl e) \<Rightarrow> (out, Inl e)
      | (out, Inr x) \<Rightarrow> (case f x of (out', r) \<Rightarrow> (out @ out', r)))"

definition lift :: "error + 'a \<Rightarrow> printed list \<times> (error + 'a)" where
  "lift m = ([], m)"

definition print :: "printed \<Rightarrow> printed list \<times> (error + unit)" where
  "print p = ([p], Inr ())"

section \<open>String operations\<close>

text \<open>
  \<^verbatim>\<open>s.split(sep)\<close> scans from the left and cuts at every non-overlapping occurrence
  of \<open>sep\<close>; \<open>cur\<close> is the text read since the last cut. Every call site of the
  scripts passes a non-empty literal separator (\<^verbatim>\<open>"_"\<close> or \<^verbatim>\<open>":="\<close>).
\<close>

function split_from :: "string \<Rightarrow> string \<Rightarrow> string \<Rightarrow> string list" where
  "split_from sep cur [] = [cur]"
| "split_from sep cur (c # cs) =
     (if sep \<noteq> [] \<and> prefix sep (c # cs)
      then cur # split_from sep [] (drop (length sep) (c # cs))
      else split_from sep (cur @ [c]) cs)"
  by pat_completeness auto
termination
  by (relation "measure (\<lambda>(sep, cur, s). length s)") auto

definition split_str :: "string \<Rightarrow> string \<Rightarrow> string list" where
  "split_str s sep = split_from sep [] s"

text \<open>\<^verbatim>\<open>sep.join(parts)\<close>.\<close>

fun join :: "string \<Rightarrow> string list \<Rightarrow> string" where
  "join sep [] = []"
| "join sep [x] = x"
| "join sep (x # y # ys) = x @ sep @ join sep (y # ys)"

text \<open>\<^verbatim>\<open>os.path.join(a, *p)\<close> of \<^verbatim>\<open>posixpath\<close>: a component that starts with
  \<^verbatim>\<open>/\<close> replaces what was joined so far.\<close>

fun path_join_from :: "string \<Rightarrow> string list \<Rightarrow> string" where
  "path_join_from path [] = path"
| "path_join_from path (b # p) =
     path_join_from
       (if prefix ''/'' b then b
        else if path = [] \<or> suffix ''/'' path then path @ b
        else path @ ''/'' @ b) p"

definition path_join :: "string \<Rightarrow> string list \<Rightarrow> string" where
  "path_join a p = path_join_from a p"

section \<open>The main launch script\<close>

subsection \<open>get_cmdline_argument\<close>

text \<open>\<^verbatim>\<open>sys.argv\<close> is the first parameter.\<close>

fun get_cmdline_argument :: "string list \<Rightarrow> string \<Rightarrow> error + string" where
  "get_cmdline_argument [] arg_name = Inr ''0''"
| "get_cmdline_argument (arg # argv) arg_name =
     (if prefix (arg_name @ '':='') arg
      then list_item (split_str arg '':='') 1
      else get_cmdline_argument argv arg_name)"

subsection \<open>The environment of a launch\<close>

text \<open>
  What the scripts read from outside: the command line, the package index of
  \<^verbatim>\<open>ament_index_python\<close>, the YAML files (\<^verbatim>\<open>open\<close> and
  \<^verbatim>\<open>yaml.safe_load\<close> together) and the configuration builder of
  \<^verbatim>\<open>moveit_configs_utils\<close>, whose constructor and whose
  \<^verbatim>\<open>to_moveit_configs\<close> may both raise. They are parameters of the model.
\<close>

record moveit_configs =
  robot_description :: py_dict
  robot_description_semantic :: py_dict
  robot_description_kinematics :: py_dict

record env =
  sys_argv :: "string list"
  get_package_share_directory :: "string \<Rightarrow> error + string"
  load_yaml_file :: "string \<Rightarrow> error + py_value"
  MoveItConfigsBuilder :: "string \<Rightarrow> error + unit"
  to_moveit_configs :: "string \<Rightarrow> string \<Rightarrow> error + moveit_configs"

subsection \<open>load_benchmarking_config\<close>

text \<open>The inner function \<^verbatim>\<open>get_config_data(key, parent_data=None)\<close>; the
  configuration it closes over is the first parameter.\<close>

definition get_config_data :: "py_value \<Rightarrow> string \<Rightarrow> py_value \<Rightarrow> error + py_value" where
  "get_config_data config_data key parent_data =
     (let source_data = (if truthy parent_data then parent_data else config_data) in
      bind_err (py_get source_data key) (\<lambda>v.
        if v = PyNone then Inl (ValueError (''Missing required configuration key '' @ key))
        else Inr v))"

text \<open>Lines 54 to 84: the lookups, in the order of the source, and the returned dictionary.\<close>

definition config_fields :: "py_value \<Rightarrow> error + py_dict" where
  "config_fields config_data =
     bind_err (get_config_data config_data ''moveit_config_pkg'' PyNone) (\<lambda>moveit_config_pkg.
     bind_err (get_config_data config_data ''move_group'' PyNone) (\<lambda>move_group.
     bind_err (get_config_data config_data ''sample_size'' PyNone) (\<lambda>sample_size.
     bind_err (get_config_data config_data ''ik_solvers'' PyNone) (\<lambda>ik_solvers_data.
     bind_err (get_config_data config_data ''ik_solver_1'' ik_solvers_data) (\<lambda>ik_solver_1_data.
     bind_err (get_config_data config_data ''ik_solver_2'' ik_solvers_data) (\<lambda>ik_solver_2_data.
     bind_err (get_config_data config_data ''ik_solver_3'' ik_solvers_data) (\<lambda>ik_solver_3_data.
     bind_err (py_get ik_solver_1_data ''name'') (\<lambda>ik_solver_1.
     bind_err (py_get ik_solver_2_data ''name'') (\<lambda>ik_solver_2.
     bind_err (py_get ik_solver_3_data ''name'') (\<lambda>ik_solver_3.
     bind_err (py_get ik_solver_1_data ''kinematics_file'') (\<lambda>ik_solver_1_kinematics_file.
     bind_err (py_get ik_solver_2_data ''kinematics_file'') (\<lambda>ik_solver_2_kinematics_file.
     bind_err (py_get ik_solver_3_data ''kinematics_file'') (\<lambda>ik_solver_3_kinematics_file.
     Inr [(''moveit_config_pkg'', moveit_config_pkg),
          (''move_group'', move_group),
          (''sample_size'', sample_size),
          (''ik_solver_1'', ik_solver_1),
          (''ik_solver_2'', ik_solver_2),
          (''ik_solver_3'', ik_solver_3),
          (''ik_solver_1_kinematics_file'', ik_solver_1_kinematics_file),
          (''ik_solver_2_kinematics_file'', ik_solver_2_kinematics_file),
          (''ik_solver_3_kinematics_file'', ik_solver_3_kinematics_file)])))))))))))))"

definition load_benchmarking_config :: "env \<Rightarrow> string \<Rightarrow> string \<Rightarrow> error + py_dict" where
  "load_benchmarking_config env ik_benchmarking_pkg ik_benchmarking_config =
     bind_err (get_package_share_directory env ik_benchmarking_pkg) (\<lambda>share.
     let file_path = path_join share [''config'', ik_benchmarking_config] in
     bind_err (load_yaml_file env file_path) config_fields)"

subsection \<open>get_robot_name\<close>

text \<open>
  The function prints before it exits, so the model returns the printed lines together
  with the result. The message is not an f-string: the braces are printed literally.
\<close>

definition not_standard_message :: string where
  "not_standard_message =
     ''Error: The package name {moveit_config_pkg} is not standard. '' @
     ''Please use 'robot_moveit_config' or 'moveit_resources_robot_moveit_config'.''"

definition get_robot_name :: "string \<Rightarrow> printed list \<times> (error + string)" where
  "get_robot_name moveit_config_pkg =
     (let parts = split_str moveit_config_pkg ''_'' in
      if length parts < 2 then ([Text not_standard_message], Inl (SystemExit 1))
      else
        let package_name_prefix = join ''_'' (take 2 parts) in
        if package_name_prefix = ''moveit_resources''
        then ([], Inr (join ''_'' (take 3 parts)))
        else ([], Inr (parts ! 0)))"

text \<open>
  The naming convention that the message of \<open>get_robot_name\<close> asks for: both forms,
  \<^verbatim>\<open>robot_moveit_config\<close> and \<^verbatim>\<open>moveit_resources_robot_moveit_config\<close>, end in
  \<^verbatim>\<open>_moveit_config\<close>.
\<close>

definition standard_package_name :: "string \<Rightarrow> bool" where
  "standard_package_name pkg \<longleftrightarrow> suffix ''_moveit_config'' pkg"

subsection \<open>generate_launch_description\<close>

record node =
  package :: string
  executable :: string
  node_output :: string
  parameters :: "py_dict list"

datatype launch_entity =
    Node node
  | TimerAction real "launch_entity list"
  | DeclareLaunchArgument string string string

type_synonym launch_description = "launch_entity list"

text \<open>Lines 122 to 126: the pair \<open>(kinematics_file_key, ik_solver_key)\<close>. The test
  \<^verbatim>\<open>ik_solver_value > '0'\<close> compares strings, lexicographically by character
  code.\<close>

definition solver_keys :: "string \<Rightarrow> string \<times> string" where
  "solver_keys ik_solver_value =
     (if ik_solver_value > ''0''
      then (''ik_solver_'' @ ik_solver_value @ ''_kinematics_file'',
            ''ik_solver_'' @ ik_solver_value)
      else ([], []))"

text \<open>Lines 129 to 139, in Python's order of evaluation: the builder's constructor,
  the share directory of the package, the kinematics file name, the joined path, the
  build. \<^verbatim>\<open>os.path.join\<close> raises \<^verbatim>\<open>TypeError\<close> on a component that is not a
  string.\<close>

definition build_moveit_config :: "env \<Rightarrow> string \<Rightarrow> py_dict \<Rightarrow> string \<Rightarrow> error + moveit_configs" where
  "build_moveit_config env robot_name benchmarking_config kinematics_file_key =
     bind_err (MoveItConfigsBuilder env robot_name) (\<lambda>_.
     bind_err (dict_item benchmarking_config ''moveit_config_pkg'') (\<lambda>pkg.
     bind_err (case pkg of PyStr p \<Rightarrow> get_package_share_directory env p | _ \<Rightarrow> Inl TypeError) (\<lambda>share.
     bind_err (dict_item benchmarking_config kinematics_file_key) (\<lambda>kinematics_file.
     bind_err (case kinematics_file of
                 PyStr k \<Rightarrow> Inr (path_join share [''config'', k])
               | _ \<Rightarrow> Inl TypeError) (\<lambda>file_path.
     to_moveit_configs env robot_name file_path)))))"

definition ik_solver_arg :: launch_entity where
  "ik_solver_arg =
     DeclareLaunchArgument ''ik_solver_number'' ''0''
       (''IK solver number corresponding to the ik_benchmarking.yaml config file. '' @
        ''Use values of 1, 2, and 3.'')"

definition generate_launch_description :: "env \<Rightarrow> printed list \<times> (error + launch_description)" where
  "generate_launch_description env =
     bind_io (lift (get_cmdline_argument (sys_argv env) ''ik_solver_number'')) (\<lambda>ik_solver_value.
     bind_io (lift (load_benchmarking_config env ''ik_benchmarking'' ''ik_benchmarking.yaml''))
       (\<lambda>benchmarking_config.
     bind_io (lift (dict_item benchmarking_config ''moveit_config_pkg'')) (\<lambda>pkg.
     bind_io (case pkg of PyStr p \<Rightarrow> get_robot_name p | _ \<Rightarrow> ([], Inl AttributeError))
       (\<lambda>robot_name.
     let kinematics_file_key = fst (solver_keys ik_solver_value);
         ik_solver_key = snd (solver_keys ik_solver_value) in
     bind_io (lift (build_moveit_config env robot_name benchmarking_config kinematics_file_key))
       (\<lambda>moveit_config.
     bind_io (lift (dict_item benchmarking_config ''move_group'')) (\<lambda>server_move_group.
     bind_io (lift (dict_item benchmarking_config ''sample_size'')) (\<lambda>server_sample_size.
     let benchmarking_server_node =
           \<lparr>package = ''ik_benchmarking'', executable = ''ik_benchmarking_server'',
            node_output = ''screen'',
            parameters =
              [robot_description moveit_config,
               robot_description_semantic moveit_config,
               robot_description_kinematics moveit_config,
               [(''move_group'', server_move_group), (''sample_size'', server_sample_size)]]\<rparr> in
     bind_io (lift (dict_item benchmarking_config ik_solver_key)) (\<lambda>shown.
     bind_io (print (Formatted (CHR 0x0A # '' Running calculations for IK Solver: '') shown
                       ('' '' @ [CHR 0x0A]))) (\<lambda>_.
     bind_io (lift (dict_item benchmarking_config ''move_group'')) (\<lambda>client_move_group.
     bind_io (lift (dict_item benchmarking_config ''sample_size'')) (\<lambda>client_sample_size.
     bind_io (lift (dict_item benchmarking_config ik_solver_key)) (\<lambda>client_ik_solver.
     let benchmarking_client_node =
           \<lparr>package = ''ik_benchmarking'', executable = ''ik_benchmarking_client'',
            node_output = ''screen'',
            parameters =
              [robot_description moveit_config,
               robot_description_semantic moveit_config,
               robot_description_kinematics moveit_config,
               [(''move_group'', client_move_group), (''sample_size'', client_sample_size),
                (''ik_solver'', client_ik_solver)]]\<rparr>;
         delayed_benchmarking_client_node = TimerAction 2.0 [Node benchmarking_client_node] in
     ([], Inr [Node benchmarking_server_node, delayed_benchmarking_client_node,
               ik_solver_arg])))))))))))))"

section \<open>The clients launch script\<close>

text \<open>Line 45: the robot name is the first token of the package name.\<close>

definition clients_robot_name :: "string \<Rightarrow> error + string" where
  "clients_robot_name moveit_config_pkg_name = list_item (split_str moveit_config_pkg_name ''_'') 0"

text \<open>Lines 42 to 47: the loop over \<^verbatim>\<open>sys.argv\<close>, on the state
  \<open>(robot_name, moveit_config_pkg_name, kinematics_file_name)\<close>; a later argument
  overrides an earlier one.\<close>

fun clients_scan_argv ::
  "string list \<Rightarrow> string \<times> string \<times> string \<Rightarrow> error + string \<times> string \<times> string" where
  "clients_scan_argv [] st = Inr st"
| "clients_scan_argv (arg # rest) (robot_name, moveit_config_pkg_name, kinematics_file_name) =
     (if prefix ''moveit_config_pkg:='' arg then
        bind_err (list_item (split_str arg '':='') 1) (\<lambda>pkg_name.
        bind_err (clients_robot_name pkg_name) (\<lambda>name.
        clients_scan_argv rest (name, pkg_name, kinematics_file_name)))
      else if prefix ''kinematics_file:='' arg then
        bind_err (list_item (split_str arg '':='') 1) (\<lambda>file_name.
        clients_scan_argv rest (robot_name, moveit_config_pkg_name, file_name))
      else clients_scan_argv rest (robot_name, moveit_config_pkg_name, kinematics_file_name))"

text \<open>Lines 38 to 47: the defaults and the loop.\<close>

definition clients_inferred :: "env \<Rightarrow> error + string \<times> string \<times> string" where
  "clients_inferred env =
     clients_scan_argv (sys_argv env) (''iiwa'', ''iiwa_moveit_config'', ''kinematics.yaml'')"

section \<open>A sample installation\<close>

text \<open>
  A configuration file with three solvers, and an environment in which every package is
  installed under \<^verbatim>\<open>/opt/ros/share\<close>, the configuration file is the only YAML file, and
  the builder succeeds; the command line and the content of the configuration file are
  its parameters. The theorems below are instantiated on them.
\<close>

definition sample_solver :: "string \<Rightarrow> string \<Rightarrow> py_dict" where
  "sample_solver solver_name file = [(''name'', PyStr solver_name), (''kinematics_file'', PyStr file)]"

definition sample_solvers :: py_dict where
  "sample_solvers =
     [(''ik_solver_1'', PyDict (sample_solver ''KDL'' ''kdl_kinematics.yaml'')),
      (''ik_solver_2'', PyDict (sample_solver ''TRAC_IK'' ''trac_ik_kinematics.yaml'')),
      (''ik_solver_3'', PyDict (sample_solver ''pick_ik'' ''pick_ik_kinematics.yaml''))]"

definition sample_config :: py_dict where
  "sample_config =
     [(''moveit_config_pkg'', PyStr ''moveit_resources_panda_moveit_config''),
      (''move_group'', PyStr ''panda_arm''),
      (''sample_size'', PyInt 10000),
      (''ik_solvers'', PyDict sample_solvers)]"

text \<open>The same file, whose first solver entry has lost its \<^verbatim>\<open>name\<close>.\<close>

definition nameless_config :: py_dict where
  "nameless_config =
     [(''moveit_config_pkg'', PyStr ''moveit_resources_panda_moveit_config''),
      (''move_group'', PyStr ''panda_arm''),
      (''sample_size'', PyInt 10000),
      (''ik_solvers'', PyDict
         [(''ik_solver_1'', PyDict [(''kinematics_file'', PyStr ''kdl_kinematics.yaml'')]),
          (''ik_solver_2'', PyDict (sample_solver ''TRAC_IK'' ''trac_ik_kinematics.yaml'')),
          (''ik_solver_3'', PyDict (sample_solver ''pick_ik'' ''pick_ik_kinematics.yaml''))])]"

definition sample_moveit_configs :: "string \<Rightarrow> string \<Rightarrow> moveit_configs" where
  "sample_moveit_configs robot_name file_path =
     \<lparr>robot_description = [(''robot_description'', PyStr robot_name)],
      robot_description_semantic = [(''robot_description_semantic'', PyStr robot_name)],
      robot_description_kinematics = [(''robot_description_kinematics'', PyStr file_path)]\<rparr>"

definition sample_env :: "string list \<Rightarrow> py_dict \<Rightarrow> env" where
  "sample_env argv config =
     \<lparr>sys_argv = argv,
      get_package_share_directory = (\<lambda>pkg. Inr (''/opt/ros/share/'' @ pkg)),
      load_yaml_file = (\<lambda>path.
        if path = ''/opt/ros/share/ik_benchmarking/config/ik_benchmarking.yaml''
        then Inr (PyDict config) else Inl (FileError path)),
      MoveItConfigsBuilder = (\<lambda>robot_name. Inr ()),
      to_moveit_configs = (\<lambda>robot_name file_path.
        Inr (sample_moveit_configs robot_name file_path))\<rparr>"

section \<open>Properties of the string operations\<close>

lemma bind_err_simps [simp]:
  "bind_err (Inl e) f = Inl e"
  "bind_err (Inr x) f = f x"
  by (simp_all add: bind_err_def)

lemma split_from_not_Nil: "split_from sep cur s \<noteq> []"
  by (induction sep cur s rule: split_from.induct) auto

lemma join_split_from: "sep \<noteq> [] \<Longrightarrow> join sep (split_from sep cur s) = cur @ s"
proof (induction sep cur s rule: split_from.induct)
  case (1 sep cur)
  then show ?case by simp
next
  case (2 sep cur c cs)
  show ?case
  proof (cases "prefix sep (c # cs)")
    case True
    then obtain r where r: "c # cs = sep @ r" by (auto simp: prefix_def)
    then have d: "drop (length sep) (c # cs) = r" by (metis append_eq_conv_conj)
    obtain t ts where ts: "split_from sep [] r = t # ts"
      using split_from_not_Nil by (cases "split_from sep [] r") auto
    from 2 True d have j: "join sep (split_from sep [] r) = r" by simp
    from True 2(3) d have "split_from sep cur (c # cs) = cur # split_from sep [] r"
      by simp
    then have "join sep (split_from sep cur (c # cs)) = cur @ sep @ join sep (t # ts)"
      by (simp add: ts)
    also have "\<dots> = cur @ c # cs" using j ts r by simp
    finally show ?thesis .
  next
    case False
    with 2 show ?thesis by simp
  qed
qed

lemma sublist_iff_prefix_drop:
  "sublist xs ys \<longleftrightarrow> (\<exists>i\<le>length ys. prefix xs (drop i ys))"
proof
  assume "sublist xs ys"
  then obtain ps ss where "ys = ps @ xs @ ss" by (auto simp: sublist_def)
  then have "length ps \<le> length ys \<and> prefix xs (drop (length ps) ys)" by simp
  then show "\<exists>i\<le>length ys. prefix xs (drop i ys)" by blast
next
  assume "\<exists>i\<le>length ys. prefix xs (drop i ys)"
  then obtain i r where "drop i ys = xs @ r" by (auto simp: prefix_def)
  then have "ys = take i ys @ xs @ r" by (metis append_take_drop_id)
  then show "sublist xs ys" by (auto simp: sublist_def)
qed

lemma split_from_tokens:
  "sep \<noteq> [] \<Longrightarrow> \<forall>i<length cur. \<not> prefix sep (drop i (cur @ s)) \<Longrightarrow>
   t \<in> set (split_from sep cur s) \<Longrightarrow> \<not> sublist sep t"
proof (induction sep cur s rule: split_from.induct)
  case (1 sep cur)
  then have "t = cur" by simp
  moreover have "\<not> prefix sep (drop i cur)" if "i \<le> length cur" for i
    using that 1(1,2) by (cases "i = length cur") auto
  ultimately show ?case by (auto simp: sublist_iff_prefix_drop)
next
  case (2 sep cur c cs)
  have cur: "\<not> sublist sep cur"
  proof
    assume "sublist sep cur"
    then obtain i where i: "i \<le> length cur" "prefix sep (drop i cur)"
      by (auto simp: sublist_iff_prefix_drop)
    with 2(3) have "i < length cur" by (cases "i = length cur") auto
    moreover from i have "prefix sep (drop i (cur @ c # cs))"
      by (simp add: prefix_def) (metis append.assoc)
    ultimately show False using 2(4) by blast
  qed
  show ?case
  proof (cases "prefix sep (c # cs)")
    case True
    with 2(3,5) have "t = cur \<or> t \<in> set (split_from sep [] (drop (length sep) (c # cs)))"
      by auto
    then show ?thesis
    proof
      assume "t = cur" with cur show ?thesis by simp
    next
      assume "t \<in> set (split_from sep [] (drop (length sep) (c # cs)))"
      with 2(1)[OF _ 2(3)] True 2(3) show ?thesis by simp
    qed
  next
    case False
    have inv: "\<forall>i<length (cur @ [c]). \<not> prefix sep (drop i ((cur @ [c]) @ cs))"
    proof (intro allI impI)
      fix i assume "i < length (cur @ [c])"
      then consider "i < length cur" | "i = length cur" by fastforce
      then show "\<not> prefix sep (drop i ((cur @ [c]) @ cs))"
      proof cases
        case 1 with 2(4) show ?thesis by simp
      next
        case 2 with False show ?thesis by simp
      qed
    qed
    from False 2(5) have "t \<in> set (split_from sep (cur @ [c]) cs)" by simp
    with 2(2)[OF _ 2(3) inv] False show ?thesis by simp
  qed
qed

lemma split_str_tokens: "sep \<noteq> [] \<Longrightarrow> t \<in> set (split_str s sep) \<Longrightarrow> \<not> sublist sep t"
  unfolding split_str_def by (rule split_from_tokens) auto

lemma join_split_str: "sep \<noteq> [] \<Longrightarrow> join sep (split_str s sep) = s"
  by (simp add: split_str_def join_split_from)

lemma split_str_not_Nil: "split_str s sep \<noteq> []"
  by (simp add: split_str_def split_from_not_Nil)

lemma single_char_sublist: "sublist [c] s \<longleftrightarrow> c \<in> set s"
  by (induction s) (auto simp: sublist_Cons_right)

lemma split_str_cases:
  assumes "sep \<noteq> []"
  shows "(\<not> sublist sep s \<and> split_str s sep = [s]) \<or>
         (\<exists>a v more. split_str s sep = a # v # more \<and> \<not> sublist sep a \<and> \<not> sublist sep v \<and>
            s = a @ sep @ v @ (if more = [] then [] else sep @ join sep more))"
proof (cases "split_str s sep")
  case Nil
  then show ?thesis by (simp add: split_str_not_Nil)
next
  case (Cons a rest)
  note parts = this
  have j: "join sep (split_str s sep) = s" using assms by (rule join_split_str)
  show ?thesis
  proof (cases rest)
    case Nil
    with parts j have "a = s" by simp
    moreover have "\<not> sublist sep a" using assms parts split_str_tokens[of sep a s] by simp
    ultimately show ?thesis using parts Nil by simp
  next
    case (Cons v more)
    have a: "\<not> sublist sep a" using assms parts split_str_tokens[of sep a s] by simp
    have v: "\<not> sublist sep v" using assms parts Cons split_str_tokens[of sep v s] by simp
    have "join sep (v # more) = v @ (if more = [] then [] else sep @ join sep more)"
      by (cases more) auto
    with j parts Cons have "s = a @ sep @ v @ (if more = [] then [] else sep @ join sep more)"
      by simp
    with a v parts Cons show ?thesis by blast
  qed
qed

lemma split_str_no_sep: "sep \<noteq> [] \<Longrightarrow> \<not> sublist sep s \<Longrightarrow> split_str s sep = [s]"
  using split_str_cases[of sep s] by auto

lemma split_str_two:
  assumes "sep \<noteq> []" "sublist sep s"
  obtains a v more where "split_str s sep = a # v # more" "\<not> sublist sep a" "\<not> sublist sep v"
    "s = a @ sep @ v @ (if more = [] then [] else sep @ join sep more)"
  using split_str_cases[OF assms(1), of s] assms(2) by blast

lemma token_count_underscore:
  "length (split_str pkg ''_'') < 2 \<longleftrightarrow> CHR ''_'' \<notin> set pkg"
proof
  assume "length (split_str pkg ''_'') < 2"
  then show "CHR ''_'' \<notin> set pkg"
    using split_str_cases[of "''_''" pkg] by (auto simp: single_char_sublist)
next
  assume "CHR ''_'' \<notin> set pkg"
  then have "split_str pkg ''_'' = [pkg]"
    by (intro split_str_no_sep) (auto simp: single_char_sublist)
  then show "length (split_str pkg ''_'') < 2" by simp
qed

section \<open>The robot name\<close>

text \<open>
  Claim C3. \<open>get_robot_name\<close> maps the package name \<^verbatim>\<open>robot_moveit_config\<close> to
  \<^verbatim>\<open>robot\<close> and \<^verbatim>\<open>moveit_resources_robot_moveit_config\<close> to
  \<^verbatim>\<open>moveit_resources_robot\<close>; it prints nothing in either case.
\<close>

theorem get_robot_name_examples:
  "get_robot_name ''robot_moveit_config'' = ([], Inr ''robot'') \<and>
   get_robot_name ''moveit_resources_robot_moveit_config'' = ([], Inr ''moveit_resources_robot'')"
  by (simp add: get_robot_name_def split_str_def)

text \<open>
  Claim C5, as stated, fails. The package name \<^verbatim>\<open>robot_description\<close> does not follow the
  naming convention, and \<open>get_robot_name\<close> neither prints nor exits on it: it returns
  \<^verbatim>\<open>robot\<close>.
\<close>

theorem nonstandard_name_accepted:
  "\<not> standard_package_name ''robot_description'' \<and>
   get_robot_name ''robot_description'' = ([], Inr ''robot'')"
  by (simp add: standard_package_name_def get_robot_name_def split_str_def suffix_to_prefix)

text \<open>
  Claim C5, amended. The test of \<open>get_robot_name\<close> is the number of tokens: for every
  package name without an underscore (fewer than two underscore-separated tokens, by
  \<open>token_count_underscore\<close>) it prints the error message and exits with status 1.
\<close>

theorem get_robot_name_exits:
  assumes "CHR ''_'' \<notin> set pkg"
  shows "get_robot_name pkg = ([Text not_standard_message], Inl (SystemExit 1))"
  using assms token_count_underscore[of pkg] by (simp add: get_robot_name_def)

theorem get_robot_name_exits_witness:
  "CHR ''_'' \<notin> set ''iiwa'' \<and>
   get_robot_name ''iiwa'' = ([Text not_standard_message], Inl (SystemExit 1))"
  using get_robot_name_exits[of "''iiwa''"] by simp

text \<open>
  Claim C6. For every package name with at least two underscore-separated tokens,
  \<open>get_robot_name\<close> prints nothing and returns: the first three tokens joined by an
  underscore (all of them when there are only two) if the first two tokens joined by an
  underscore are \<^verbatim>\<open>moveit_resources\<close>, and the first token otherwise.
\<close>

theorem get_robot_name_two_branch:
  assumes "2 \<le> length (split_str pkg ''_'')"
  shows "get_robot_name pkg =
           ([], Inr (if join ''_'' (take 2 (split_str pkg ''_'')) = ''moveit_resources''
                     then join ''_'' (take 3 (split_str pkg ''_''))
                     else hd (split_str pkg ''_'')))"
  using assms by (cases "split_str pkg ''_''") (auto simp: get_robot_name_def Let_def)

theorem get_robot_name_two_branch_witness:
  "2 \<le> length (split_str ''moveit_resources_panda_moveit_config'' ''_'') \<and>
   get_robot_name ''moveit_resources_panda_moveit_config'' = ([], Inr ''moveit_resources_panda'') \<and>
   2 \<le> length (split_str ''iiwa_moveit_config'' ''_'') \<and>
   get_robot_name ''iiwa_moveit_config'' = ([], Inr ''iiwa'')"
  using get_robot_name_two_branch[of "''moveit_resources_panda_moveit_config''"]
    get_robot_name_two_branch[of "''iiwa_moveit_config''"]
  by (simp add: split_str_def)

section \<open>The command line\<close>

lemma get_cmdline_argument_find:
  "get_cmdline_argument argv arg_name =
     (case find (prefix (arg_name @ '':='')) argv of
        None \<Rightarrow> Inr ''0''
      | Some arg \<Rightarrow> list_item (split_str arg '':='') 1)"
  by (induction argv) auto

lemma second_token:
  assumes "sep \<noteq> []" "sublist sep s"
  shows "\<exists>a v. list_item (split_str s sep) 1 = Inr v \<and> \<not> sublist sep a \<and> \<not> sublist sep v \<and>
           (s = a @ sep @ v \<or> (\<exists>rest. s = a @ sep @ v @ sep @ rest))"
proof -
  from assms obtain a v more where p: "split_str s sep = a # v # more"
    "\<not> sublist sep a" "\<not> sublist sep v"
    "s = a @ sep @ v @ (if more = [] then [] else sep @ join sep more)"
    by (rule split_str_two)
  from p(1) have "list_item (split_str s sep) 1 = Inr v" by (simp add: list_item_def)
  moreover from p(4) have "s = a @ sep @ v \<or> (\<exists>rest. s = a @ sep @ v @ sep @ rest)"
    by (cases "more = []") auto
  ultimately show ?thesis using p(2,3) by blast
qed

lemma prefix_assign_sublist: "prefix (arg_name @ '':='') arg \<Longrightarrow> sublist '':='' arg"
  by (auto simp: prefix_def sublist_def)

text \<open>
  Claim C10. For every argument list and every argument name, \<open>get_cmdline_argument\<close>
  returns a string (the index \<open>[1]\<close> is never out of range). When no entry starts with
  the name followed by \<^verbatim>\<open>:=\<close> the string is \<^verbatim>\<open>0\<close>. Otherwise, for the first such
  entry \<open>arg\<close>, it is the text \<open>v\<close> between the first occurrence of \<^verbatim>\<open>:=\<close> in
  \<open>arg\<close> and the second one, or the end of \<open>arg\<close> when there is no second: what follows
  a second \<^verbatim>\<open>:=\<close> is dropped.
\<close>

theorem get_cmdline_argument_value:
  "(\<exists>v. get_cmdline_argument argv arg_name = Inr v) \<and>
   (find (prefix (arg_name @ '':='')) argv = None \<longrightarrow>
      get_cmdline_argument argv arg_name = Inr ''0'') \<and>
   (\<forall>arg. find (prefix (arg_name @ '':='')) argv = Some arg \<longrightarrow>
      (\<exists>a v. get_cmdline_argument argv arg_name = Inr v \<and>
         \<not> sublist '':='' a \<and> \<not> sublist '':='' v \<and>
         (arg = a @ '':='' @ v \<or> (\<exists>rest. arg = a @ '':='' @ v @ '':='' @ rest))))"
proof (cases "find (prefix (arg_name @ '':='')) argv")
  case None
  then show ?thesis by (simp add: get_cmdline_argument_find)
next
  case (Some arg)
  then have "prefix (arg_name @ '':='') arg" by (auto simp: find_Some_iff)
  then have "sublist '':='' arg" by (rule prefix_assign_sublist)
  then have "\<exists>a v. list_item (split_str arg '':='') 1 = Inr v \<and> \<not> sublist '':='' a \<and>
      \<not> sublist '':='' v \<and> (arg = a @ '':='' @ v \<or> (\<exists>rest. arg = a @ '':='' @ v @ '':='' @ rest))"
    by (intro second_token) simp_all
  with Some show ?thesis by (simp add: get_cmdline_argument_find) blast
qed

theorem get_cmdline_argument_value_witness:
  "find (prefix (''ik_solver_number'' @ '':='')) [''launch'', ''x:=1''] = None \<and>
   get_cmdline_argument [''launch'', ''x:=1''] ''ik_solver_number'' = Inr ''0'' \<and>
   find (prefix (''ik_solver_number'' @ '':=''))
     [''launch'', ''ik_solver_number:=2:=3'', ''ik_solver_number:=1''] = Some ''ik_solver_number:=2:=3'' \<and>
   get_cmdline_argument [''launch'', ''ik_solver_number:=2:=3'', ''ik_solver_number:=1'']
     ''ik_solver_number'' = Inr ''2'' \<and>
   (\<exists>a v. get_cmdline_argument [''launch'', ''ik_solver_number:=2:=3'', ''ik_solver_number:=1'']
             ''ik_solver_number'' = Inr v \<and>
          \<not> sublist '':='' a \<and> \<not> sublist '':='' v \<and>
          (''ik_solver_number:=2:=3'' = a @ '':='' @ v \<or>
           (\<exists>rest. ''ik_solver_number:=2:=3'' = a @ '':='' @ v @ '':='' @ rest)))"
proof -
  have v: "get_cmdline_argument [''launch'', ''ik_solver_number:=2:=3'', ''ik_solver_number:=1'']
     ''ik_solver_number'' = Inr ''2''"
    by (simp add: split_str_def list_item_def)
  show ?thesis
    using get_cmdline_argument_value[of "[''launch'', ''x:=1'']" "''ik_solver_number''"]
      get_cmdline_argument_value[of "[''launch'', ''ik_solver_number:=2:=3'', ''ik_solver_number:=1'']"
        "''ik_solver_number''"] v
    by simp
qed

section \<open>The robot name in the two scripts\<close>

lemma clients_robot_name_hd: "clients_robot_name pkg = Inr (hd (split_str pkg ''_''))"
  using split_str_not_Nil[of pkg "''_''"]
  by (cases "split_str pkg ''_''") (auto simp: clients_robot_name_def list_item_def)

lemma clients_robot_name_one_token:
  "CHR ''_'' \<notin> set pkg \<Longrightarrow> clients_robot_name pkg = Inr pkg"
  by (simp add: clients_robot_name_hd split_str_no_sep single_char_sublist)

lemma join_take3_longer:
  assumes "join ''_'' (take 2 (a # b # rest)) = ''moveit_resources''"
  shows "join ''_'' (take 3 (a # b # rest)) \<noteq> a"
proof -
  have "length (join ''_'' (take 3 (a # b # rest))) > length a"
    by (cases rest) auto
  then show ?thesis by auto
qed

lemma rules_agree_iff:
  "snd (get_robot_name pkg) = clients_robot_name pkg \<longleftrightarrow>
     2 \<le> length (split_str pkg ''_'') \<and>
     join ''_'' (take 2 (split_str pkg ''_'')) \<noteq> ''moveit_resources''"
proof (cases "split_str pkg ''_''")
  case Nil
  then show ?thesis by (simp add: split_str_not_Nil)
next
  case (Cons a rest)
  note parts = this
  show ?thesis
  proof (cases rest)
    case Nil
    with parts show ?thesis by (simp add: get_robot_name_def clients_robot_name_hd)
  next
    case (Cons b more)
    show ?thesis
    proof (cases "join ''_'' (take 2 (a # b # more)) = ''moveit_resources''")
      case True
      from join_take3_longer[OF True] have "join ''_'' (take 3 (a # b # more)) \<noteq> a" .
      with True parts Cons show ?thesis
        by (simp add: get_robot_name_def clients_robot_name_hd)
    next
      case False
      with parts Cons show ?thesis
        by (simp add: get_robot_name_def clients_robot_name_hd)
    qed
  qed
qed

text \<open>
  Claim C9. The two scripts infer the robot name by different rules. On
  \<^verbatim>\<open>moveit_resources_robot_moveit_config\<close> the clients script yields \<^verbatim>\<open>moveit\<close> (by its
  rule, and by its loop over the command line) and \<open>get_robot_name\<close> yields
  \<^verbatim>\<open>moveit_resources_robot\<close>. A name of one token (no underscore) is accepted by the
  clients script, which returns it whole, while \<open>get_robot_name\<close> prints and exits on it.
  The two rules return the same name exactly on the package names of at least two tokens
  whose first two tokens are not \<^verbatim>\<open>moveit_resources\<close>.
\<close>

theorem robot_name_rules_differ:
  "clients_robot_name ''moveit_resources_robot_moveit_config'' = Inr ''moveit'' \<and>
   clients_scan_argv [''launch'', ''moveit_config_pkg:=moveit_resources_robot_moveit_config'']
     (''iiwa'', ''iiwa_moveit_config'', ''kinematics.yaml'') =
     Inr (''moveit'', ''moveit_resources_robot_moveit_config'', ''kinematics.yaml'') \<and>
   get_robot_name ''moveit_resources_robot_moveit_config'' = ([], Inr ''moveit_resources_robot'') \<and>
   (\<forall>pkg. CHR ''_'' \<notin> set pkg \<longrightarrow>
      clients_robot_name pkg = Inr pkg \<and>
      get_robot_name pkg = ([Text not_standard_message], Inl (SystemExit 1))) \<and>
   (\<forall>pkg. snd (get_robot_name pkg) = clients_robot_name pkg \<longleftrightarrow>
      2 \<le> length (split_str pkg ''_'') \<and>
      join ''_'' (take 2 (split_str pkg ''_'')) \<noteq> ''moveit_resources'')"
proof (intro conjI allI impI)
  show "clients_robot_name ''moveit_resources_robot_moveit_config'' = Inr ''moveit''"
    by (simp add: clients_robot_name_def split_str_def list_item_def)
  show "get_robot_name ''moveit_resources_robot_moveit_config'' = ([], Inr ''moveit_resources_robot'')"
    by (simp add: get_robot_name_def split_str_def)
  show "clients_scan_argv [''launch'', ''moveit_config_pkg:=moveit_resources_robot_moveit_config'']
     (''iiwa'', ''iiwa_moveit_config'', ''kinematics.yaml'') =
     Inr (''moveit'', ''moveit_resources_robot_moveit_config'', ''kinematics.yaml'')"
    by (simp add: clients_robot_name_def split_str_def list_item_def)
next
  fix pkg assume "CHR ''_'' \<notin> set pkg"
  then show "clients_robot_name pkg = Inr pkg" by (rule clients_robot_name_one_token)
next
  fix pkg assume "CHR ''_'' \<notin> set pkg"
  then show "get_robot_name pkg = ([Text not_standard_message], Inl (SystemExit 1))"
    using token_count_underscore[of pkg] by (simp add: get_robot_name_def)
next
  fix pkg
  show "snd (get_robot_name pkg) = clients_robot_name pkg \<longleftrightarrow>
      2 \<le> length (split_str pkg ''_'') \<and>
      join ''_'' (take 2 (split_str pkg ''_'')) \<noteq> ''moveit_resources''"
    by (rule rules_agree_iff)
qed

theorem robot_name_rules_differ_witness:
  "CHR ''_'' \<notin> set ''iiwa'' \<and>
   clients_robot_name ''iiwa'' = Inr ''iiwa'' \<and>
   get_robot_name ''iiwa'' = ([Text not_standard_message], Inl (SystemExit 1)) \<and>
   2 \<le> length (split_str ''iiwa_moveit_config'' ''_'') \<and>
   join ''_'' (take 2 (split_str ''iiwa_moveit_config'' ''_'')) \<noteq> ''moveit_resources'' \<and>
   snd (get_robot_name ''iiwa_moveit_config'') = clients_robot_name ''iiwa_moveit_config'' \<and>
   clients_robot_name ''iiwa_moveit_config'' = Inr ''iiwa''"
proof -
  from robot_name_rules_differ have
    one: "CHR ''_'' \<notin> set ''iiwa'' \<longrightarrow>
      clients_robot_name ''iiwa'' = Inr ''iiwa'' \<and>
      get_robot_name ''iiwa'' = ([Text not_standard_message], Inl (SystemExit 1))"
    and two: "snd (get_robot_name ''iiwa_moveit_config'') = clients_robot_name ''iiwa_moveit_config'' \<longleftrightarrow>
      2 \<le> length (split_str ''iiwa_moveit_config'' ''_'') \<and>
      join ''_'' (take 2 (split_str ''iiwa_moveit_config'' ''_'')) \<noteq> ''moveit_resources''"
    by blast+
  have t: "split_str ''iiwa_moveit_config'' ''_'' = [''iiwa'', ''moveit'', ''config'']"
    by (simp add: split_str_def)
  have c: "clients_robot_name ''iiwa_moveit_config'' = Inr ''iiwa''"
    by (simp add: clients_robot_name_def t list_item_def)
  from one two t c show ?thesis by simp
qed

section \<open>Loading the configuration\<close>

lemma get_config_data_top:
  "map_of cfg key = Some v \<Longrightarrow> v \<noteq> PyNone \<Longrightarrow> get_config_data (PyDict cfg) key PyNone = Inr v"
  by (simp add: get_config_data_def)

lemma get_config_data_sub:
  "map_of parent key = Some v \<Longrightarrow> v \<noteq> PyNone \<Longrightarrow>
   get_config_data config_data key (PyDict parent) = Inr v"
  by (auto simp: get_config_data_def)

lemma get_config_data_missing_top:
  "map_of cfg key = None \<or> map_of cfg key = Some PyNone \<Longrightarrow>
   get_config_data (PyDict cfg) key PyNone =
     Inl (ValueError (''Missing required configuration key '' @ key))"
  by (auto simp: get_config_data_def)

lemma get_config_data_missing_sub:
  "parent \<noteq> [] \<Longrightarrow> map_of parent key = None \<or> map_of parent key = Some PyNone \<Longrightarrow>
   get_config_data config_data key (PyDict parent) =
     Inl (ValueError (''Missing required configuration key '' @ key))"
  by (auto simp: get_config_data_def)

text \<open>
  Claim C1. Let the configuration file parse to a mapping in which the four top-level keys
  \<^verbatim>\<open>moveit_config_pkg\<close>, \<^verbatim>\<open>move_group\<close>, \<^verbatim>\<open>sample_size\<close> and \<^verbatim>\<open>ik_solvers\<close> are bound to
  values (a YAML null is no value), \<^verbatim>\<open>ik_solvers\<close> is a mapping with the entries
  \<^verbatim>\<open>ik_solver_1\<close>, \<^verbatim>\<open>ik_solver_2\<close>, \<^verbatim>\<open>ik_solver_3\<close>, and each entry is a mapping with the
  keys \<^verbatim>\<open>name\<close> and \<^verbatim>\<open>kinematics_file\<close>. Then \<open>load_benchmarking_config\<close> raises
  nothing and returns a dictionary of exactly nine fields, each holding the value of the
  configuration unchanged.
\<close>

theorem load_benchmarking_config_well_formed:
  assumes "get_package_share_directory env pkg = Inr share"
    and "load_yaml_file env (path_join share [''config'', file]) = Inr (PyDict cfg)"
    and "map_of cfg ''moveit_config_pkg'' = Some moveit_config_pkg" "moveit_config_pkg \<noteq> PyNone"
    and "map_of cfg ''move_group'' = Some move_group" "move_group \<noteq> PyNone"
    and "map_of cfg ''sample_size'' = Some sample_size" "sample_size \<noteq> PyNone"
    and "map_of cfg ''ik_solvers'' = Some (PyDict solvers)"
    and "map_of solvers ''ik_solver_1'' = Some (PyDict s1)"
    and "map_of solvers ''ik_solver_2'' = Some (PyDict s2)"
    and "map_of solvers ''ik_solver_3'' = Some (PyDict s3)"
    and "map_of s1 ''name'' = Some n1" "map_of s1 ''kinematics_file'' = Some k1"
    and "map_of s2 ''name'' = Some n2" "map_of s2 ''kinematics_file'' = Some k2"
    and "map_of s3 ''name'' = Some n3" "map_of s3 ''kinematics_file'' = Some k3"
  shows "load_benchmarking_config env pkg file =
           Inr [(''moveit_config_pkg'', moveit_config_pkg),
                (''move_group'', move_group),
                (''sample_size'', sample_size),
                (''ik_solver_1'', n1), (''ik_solver_2'', n2), (''ik_solver_3'', n3),
                (''ik_solver_1_kinematics_file'', k1),
                (''ik_solver_2_kinematics_file'', k2),
                (''ik_solver_3_kinematics_file'', k3)]"
proof -
  have top: "get_config_data (PyDict cfg) ''moveit_config_pkg'' PyNone = Inr moveit_config_pkg"
    "get_config_data (PyDict cfg) ''move_group'' PyNone = Inr move_group"
    "get_config_data (PyDict cfg) ''sample_size'' PyNone = Inr sample_size"
    "get_config_data (PyDict cfg) ''ik_solvers'' PyNone = Inr (PyDict solvers)"
    using assms(3-9) by (simp_all add: get_config_data_top)
  have sub: "get_config_data (PyDict cfg) ''ik_solver_1'' (PyDict solvers) = Inr (PyDict s1)"
    "get_config_data (PyDict cfg) ''ik_solver_2'' (PyDict solvers) = Inr (PyDict s2)"
    "get_config_data (PyDict cfg) ''ik_solver_3'' (PyDict solvers) = Inr (PyDict s3)"
    using assms(10-12) by (simp_all add: get_config_data_sub)
  have "config_fields (PyDict cfg) =
           Inr [(''moveit_config_pkg'', moveit_config_pkg),
                (''move_group'', move_group),
                (''sample_size'', sample_size),
                (''ik_solver_1'', n1), (''ik_solver_2'', n2), (''ik_solver_3'', n3),
                (''ik_solver_1_kinematics_file'', k1),
                (''ik_solver_2_kinematics_file'', k2),
                (''ik_solver_3_kinematics_file'', k3)]"
    unfolding config_fields_def using assms(13-18) by (simp add: top sub)
  then show ?thesis
    using assms(1,2) by (simp add: load_benchmarking_config_def)
qed

lemma sample_paths:
  "get_package_share_directory (sample_env argv config) pkg = Inr (''/opt/ros/share/'' @ pkg)"
  "path_join ''/opt/ros/share/ik_benchmarking'' [''config'', ''ik_benchmarking.yaml''] =
     ''/opt/ros/share/ik_benchmarking/config/ik_benchmarking.yaml''"
  "load_yaml_file (sample_env argv config)
     ''/opt/ros/share/ik_benchmarking/config/ik_benchmarking.yaml'' = Inr (PyDict config)"
  by (simp_all add: sample_env_def path_join_def suffix_to_prefix)

theorem load_benchmarking_config_well_formed_witness:
  "get_package_share_directory (sample_env [] sample_config) ''ik_benchmarking'' =
     Inr ''/opt/ros/share/ik_benchmarking'' \<and>
   load_yaml_file (sample_env [] sample_config)
     (path_join ''/opt/ros/share/ik_benchmarking'' [''config'', ''ik_benchmarking.yaml'']) =
     Inr (PyDict sample_config) \<and>
   map_of sample_config ''moveit_config_pkg'' = Some (PyStr ''moveit_resources_panda_moveit_config'') \<and>
   PyStr ''moveit_resources_panda_moveit_config'' \<noteq> PyNone \<and>
   map_of sample_config ''move_group'' = Some (PyStr ''panda_arm'') \<and>
   PyStr ''panda_arm'' \<noteq> PyNone \<and>
   map_of sample_config ''sample_size'' = Some (PyInt 10000) \<and>
   PyInt 10000 \<noteq> PyNone \<and>
   map_of sample_config ''ik_solvers'' = Some (PyDict sample_solvers) \<and>
   map_of sample_solvers ''ik_solver_1'' = Some (PyDict (sample_solver ''KDL'' ''kdl_kinematics.yaml'')) \<and>
   map_of sample_solvers ''ik_solver_2'' =
     Some (PyDict (sample_solver ''TRAC_IK'' ''trac_ik_kinematics.yaml'')) \<and>
   map_of sample_solvers ''ik_solver_3'' =
     Some (PyDict (sample_solver ''pick_ik'' ''pick_ik_kinematics.yaml'')) \<and>
   map_of (sample_solver ''KDL'' ''kdl_kinematics.yaml'') ''name'' = Some (PyStr ''KDL'') \<and>
   map_of (sample_solver ''KDL'' ''kdl_kinematics.yaml'') ''kinematics_file'' =
     Some (PyStr ''kdl_kinematics.yaml'') \<and>
   map_of (sample_solver ''TRAC_IK'' ''trac_ik_kinematics.yaml'') ''name'' = Some (PyStr ''TRAC_IK'') \<and>
   map_of (sample_solver ''TRAC_IK'' ''trac_ik_kinematics.yaml'') ''kinematics_file'' =
     Some (PyStr ''trac_ik_kinematics.yaml'') \<and>
   map_of (sample_solver ''pick_ik'' ''pick_ik_kinematics.yaml'') ''name'' = Some (PyStr ''pick_ik'') \<and>
   map_of (sample_solver ''pick_ik'' ''pick_ik_kinematics.yaml'') ''kinematics_file'' =
     Some (PyStr ''pick_ik_kinematics.yaml'') \<and>
   load_benchmarking_config (sample_env [] sample_config) ''ik_benchmarking'' ''ik_benchmarking.yaml'' =
     Inr [(''moveit_config_pkg'', PyStr ''moveit_resources_panda_moveit_config''),
          (''move_group'', PyStr ''panda_arm''),
          (''sample_size'', PyInt 10000),
          (''ik_solver_1'', PyStr ''KDL''),
          (''ik_solver_2'', PyStr ''TRAC_IK''),
          (''ik_solver_3'', PyStr ''pick_ik''),
          (''ik_solver_1_kinematics_file'', PyStr ''kdl_kinematics.yaml''),
          (''ik_solver_2_kinematics_file'', PyStr ''trac_ik_kinematics.yaml''),
          (''ik_solver_3_kinematics_file'', PyStr ''pick_ik_kinematics.yaml'')]"
proof -
  have share: "get_package_share_directory (sample_env [] sample_config) ''ik_benchmarking'' =
      Inr ''/opt/ros/share/ik_benchmarking''"
    by (simp add: sample_paths)
  have yaml: "load_yaml_file (sample_env [] sample_config)
      (path_join ''/opt/ros/share/ik_benchmarking'' [''config'', ''ik_benchmarking.yaml'']) =
      Inr (PyDict sample_config)"
    by (simp only: sample_paths)
  have top: "map_of sample_config ''moveit_config_pkg'' =
      Some (PyStr ''moveit_resources_panda_moveit_config'')"
    "PyStr ''moveit_resources_panda_moveit_config'' \<noteq> PyNone"
    "map_of sample_config ''move_group'' = Some (PyStr ''panda_arm'')"
    "PyStr ''panda_arm'' \<noteq> PyNone"
    "map_of sample_config ''sample_size'' = Some (PyInt 10000)"
    "PyInt 10000 \<noteq> PyNone"
    "map_of sample_config ''ik_solvers'' = Some (PyDict sample_solvers)"
    by (simp_all add: sample_config_def)
  have entries:
    "map_of sample_solvers ''ik_solver_1'' = Some (PyDict (sample_solver ''KDL'' ''kdl_kinematics.yaml''))"
    "map_of sample_solvers ''ik_solver_2'' =
       Some (PyDict (sample_solver ''TRAC_IK'' ''trac_ik_kinematics.yaml''))"
    "map_of sample_solvers ''ik_solver_3'' =
       Some (PyDict (sample_solver ''pick_ik'' ''pick_ik_kinematics.yaml''))"
    by (simp_all add: sample_solvers_def)
  have fields: "map_of (sample_solver ''KDL'' ''kdl_kinematics.yaml'') ''name'' = Some (PyStr ''KDL'')"
    "map_of (sample_solver ''KDL'' ''kdl_kinematics.yaml'') ''kinematics_file'' =
       Some (PyStr ''kdl_kinematics.yaml'')"
    "map_of (sample_solver ''TRAC_IK'' ''trac_ik_kinematics.yaml'') ''name'' = Some (PyStr ''TRAC_IK'')"
    "map_of (sample_solver ''TRAC_IK'' ''trac_ik_kinematics.yaml'') ''kinematics_file'' =
       Some (PyStr ''trac_ik_kinematics.yaml'')"
    "map_of (sample_solver ''pick_ik'' ''pick_ik_kinematics.yaml'') ''name'' = Some (PyStr ''pick_ik'')"
    "map_of (sample_solver ''pick_ik'' ''pick_ik_kinematics.yaml'') ''kinematics_file'' =
       Some (PyStr ''pick_ik_kinematics.yaml'')"
    by (simp_all add: sample_solver_def)
  note loaded = load_benchmarking_config_well_formed[OF share yaml top entries fields]
  show ?thesis
    by (intro conjI share yaml top entries fields loaded)
qed

text \<open>A missing top-level key is reported by name, when the keys read before it are
  there.\<close>

lemma missing_top_level_key:
  assumes "key \<in> {''moveit_config_pkg'', ''move_group'', ''sample_size'', ''ik_solvers''}"
    and "map_of cfg key = None"
    and "\<forall>k \<in> {''moveit_config_pkg'', ''move_group'', ''sample_size'', ''ik_solvers''}.
           k \<noteq> key \<longrightarrow> (\<exists>v. map_of cfg k = Some v \<and> v \<noteq> PyNone)"
  shows "config_fields (PyDict cfg) =
           Inl (ValueError (''Missing required configuration key '' @ key))"
proof -
  have missing: "get_config_data (PyDict cfg) key PyNone =
      Inl (ValueError (''Missing required configuration key '' @ key))"
    using assms(2) by (simp add: get_config_data_missing_top)
  from assms(1) consider "key = ''moveit_config_pkg''" | "key = ''move_group''"
    | "key = ''sample_size''" | "key = ''ik_solvers''" by auto
  then show ?thesis
  proof cases
    case 1
    with missing show ?thesis by (simp add: config_fields_def)
  next
    case 2
    with assms(3) obtain v where "map_of cfg ''moveit_config_pkg'' = Some v" "v \<noteq> PyNone" by auto
    with 2 missing show ?thesis by (simp add: config_fields_def get_config_data_top)
  next
    case 3
    with assms(3) obtain v w where "map_of cfg ''moveit_config_pkg'' = Some v" "v \<noteq> PyNone"
      "map_of cfg ''move_group'' = Some w" "w \<noteq> PyNone" by auto
    with 3 missing show ?thesis by (simp add: config_fields_def get_config_data_top)
  next
    case 4
    with assms(3) obtain v w x where "map_of cfg ''moveit_config_pkg'' = Some v" "v \<noteq> PyNone"
      "map_of cfg ''move_group'' = Some w" "w \<noteq> PyNone"
      "map_of cfg ''sample_size'' = Some x" "x \<noteq> PyNone" by auto
    with 4 missing show ?thesis by (simp add: config_fields_def get_config_data_top)
  qed
qed

text \<open>So is a missing solver entry.\<close>

lemma missing_solver_entry:
  assumes "map_of cfg ''moveit_config_pkg'' = Some moveit_config_pkg" "moveit_config_pkg \<noteq> PyNone"
    and "map_of cfg ''move_group'' = Some move_group" "move_group \<noteq> PyNone"
    and "map_of cfg ''sample_size'' = Some sample_size" "sample_size \<noteq> PyNone"
    and "map_of cfg ''ik_solvers'' = Some (PyDict solvers)"
    and "key \<in> {''ik_solver_1'', ''ik_solver_2'', ''ik_solver_3''}"
    and "map_of solvers key = None"
    and "\<forall>k \<in> {''ik_solver_1'', ''ik_solver_2'', ''ik_solver_3''}.
           k \<noteq> key \<longrightarrow> (\<exists>v. map_of solvers k = Some v \<and> v \<noteq> PyNone)"
  shows "config_fields (PyDict cfg) =
           Inl (ValueError (''Missing required configuration key '' @ key))"
proof -
  have top: "get_config_data (PyDict cfg) ''moveit_config_pkg'' PyNone = Inr moveit_config_pkg"
    "get_config_data (PyDict cfg) ''move_group'' PyNone = Inr move_group"
    "get_config_data (PyDict cfg) ''sample_size'' PyNone = Inr sample_size"
    "get_config_data (PyDict cfg) ''ik_solvers'' PyNone = Inr (PyDict solvers)"
    using assms(1-7) by (simp_all add: get_config_data_top)
  from assms(8,10) have "solvers \<noteq> []" by auto
  with assms(9) have missing: "get_config_data (PyDict cfg) key (PyDict solvers) =
      Inl (ValueError (''Missing required configuration key '' @ key))"
    by (simp add: get_config_data_missing_sub)
  from assms(8) consider "key = ''ik_solver_1''" | "key = ''ik_solver_2''" | "key = ''ik_solver_3''"
    by auto
  then show ?thesis
  proof cases
    case 1
    with missing show ?thesis by (simp add: config_fields_def top)
  next
    case 2
    with assms(10) obtain v where "map_of solvers ''ik_solver_1'' = Some v" "v \<noteq> PyNone" by auto
    with 2 missing show ?thesis by (simp add: config_fields_def top get_config_data_sub)
  next
    case 3
    with assms(10) obtain v w where "map_of solvers ''ik_solver_1'' = Some v" "v \<noteq> PyNone"
      "map_of solvers ''ik_solver_2'' = Some w" "w \<noteq> PyNone" by auto
    with 3 missing show ?thesis by (simp add: config_fields_def top get_config_data_sub)
  qed
qed

text \<open>
  Claim C2 does not hold of the code. Only the four top-level keys and the three solver
  entries go through \<open>get_config_data\<close>; \<^verbatim>\<open>name\<close> and \<^verbatim>\<open>kinematics_file\<close> are read
  with a plain \<^verbatim>\<open>get\<close>. On a configuration whose first solver entry has no
  \<^verbatim>\<open>name\<close>, loading raises nothing and returns \<^verbatim>\<open>None\<close> in the field
  \<^verbatim>\<open>ik_solver_1\<close>.
\<close>

theorem missing_name_not_reported:
  "map_of [(''kinematics_file'', PyStr ''kdl_kinematics.yaml'')] ''name'' = None \<and>
   load_benchmarking_config (sample_env [] nameless_config) ''ik_benchmarking'' ''ik_benchmarking.yaml'' =
     Inr [(''moveit_config_pkg'', PyStr ''moveit_resources_panda_moveit_config''),
          (''move_group'', PyStr ''panda_arm''),
          (''sample_size'', PyInt 10000),
          (''ik_solver_1'', PyNone),
          (''ik_solver_2'', PyStr ''TRAC_IK''),
          (''ik_solver_3'', PyStr ''pick_ik''),
          (''ik_solver_1_kinematics_file'', PyStr ''kdl_kinematics.yaml''),
          (''ik_solver_2_kinematics_file'', PyStr ''trac_ik_kinematics.yaml''),
          (''ik_solver_3_kinematics_file'', PyStr ''pick_ik_kinematics.yaml'')]"
  by (simp add: load_benchmarking_config_def sample_paths
      config_fields_def get_config_data_def nameless_config_def sample_solver_def)

section \<open>The launch description\<close>

text \<open>Sequencing: what a successful run went through.\<close>

lemma bind_io_lift_simps [simp]:
  "bind_io (lift (Inl e)) f = ([], Inl e)"
  "bind_io (lift (Inr x)) f = f x"
  "bind_io (out, Inl e) f = (out, Inl e)"
  "bind_io (print p) g = (case g () of (out', r) \<Rightarrow> (p # out', r))"
  by (simp_all add: bind_io_def lift_def print_def split: prod.splits)

lemma bind_io_Inr:
  assumes "bind_io m f = (out, Inr y)"
  obtains o1 x o2 where "m = (o1, Inr x)" "f x = (o2, Inr y)" "out = o1 @ o2"
  using assms by (auto simp: bind_io_def split: prod.splits sum.splits)

lemma bind_io_lift_Inr:
  assumes "bind_io (lift m) f = (out, Inr y)"
  obtains x where "m = Inr x" "f x = (out, Inr y)"
  using assms by (cases m) auto

lemma bind_io_print_Inr:
  assumes "bind_io (print p) g = (out, Inr y)"
  obtains o2 where "g () = (o2, Inr y)" "out = p # o2"
  using assms by (auto split: prod.splits)

lemma robot_name_step:
  assumes "(case pkg of PyStr p \<Rightarrow> get_robot_name p | _ \<Rightarrow> ([], Inl AttributeError)) = (o1, Inr rn)"
  obtains p where "pkg = PyStr p" "get_robot_name p = (o1, Inr rn)"
  using assms by (cases pkg) auto

text \<open>A run of \<open>generate_launch_description\<close> that returns went through every step of the
  source, and returns a description of this one shape.\<close>

lemma generate_launch_description_success:
  assumes "generate_launch_description env = (out, Inr ld)"
  shows "\<exists>v bc p rn mc mg ss solver.
    get_cmdline_argument (sys_argv env) ''ik_solver_number'' = Inr v \<and>
    load_benchmarking_config env ''ik_benchmarking'' ''ik_benchmarking.yaml'' = Inr bc \<and>
    dict_item bc ''moveit_config_pkg'' = Inr (PyStr p) \<and>
    snd (get_robot_name p) = Inr rn \<and>
    build_moveit_config env rn bc (fst (solver_keys v)) = Inr mc \<and>
    dict_item bc ''move_group'' = Inr mg \<and>
    dict_item bc ''sample_size'' = Inr ss \<and>
    dict_item bc (snd (solver_keys v)) = Inr solver \<and>
    ld = [Node \<lparr>package = ''ik_benchmarking'', executable = ''ik_benchmarking_server'',
                  node_output = ''screen'',
                  parameters =
                    [robot_description mc, robot_description_semantic mc,
                     robot_description_kinematics mc,
                     [(''move_group'', mg), (''sample_size'', ss)]]\<rparr>,
           TimerAction 2
             [Node \<lparr>package = ''ik_benchmarking'', executable = ''ik_benchmarking_client'',
                    node_output = ''screen'',
                    parameters =
                      [robot_description mc, robot_description_semantic mc,
                       robot_description_kinematics mc,
                       [(''move_group'', mg), (''sample_size'', ss), (''ik_solver'', solver)]]\<rparr>],
           ik_solver_arg]"
  using assms unfolding generate_launch_description_def Let_def
  apply (elim bind_io_lift_Inr)
  apply (erule bind_io_Inr)
  apply (erule robot_name_step)
  apply (elim bind_io_lift_Inr)
  apply (erule bind_io_print_Inr)
  apply (elim bind_io_lift_Inr)
  apply simp
  done

lemma bind_err_Inr:
  assumes "bind_err m f = Inr y"
  obtains x where "m = Inr x" "f x = Inr y"
  using assms by (cases m) auto

text \<open>The dictionary that \<open>load_benchmarking_config\<close> returns has nine fixed keys; the
  empty string is not one of them.\<close>

lemma config_fields_keys:
  assumes "config_fields config_data = Inr bc"
  shows "map fst bc =
    [''moveit_config_pkg'', ''move_group'', ''sample_size'', ''ik_solver_1'', ''ik_solver_2'',
     ''ik_solver_3'', ''ik_solver_1_kinematics_file'', ''ik_solver_2_kinematics_file'',
     ''ik_solver_3_kinematics_file'']"
  using assms unfolding config_fields_def
  apply (elim bind_err_Inr)
  apply auto
  done

lemma load_benchmarking_config_keys:
  assumes "load_benchmarking_config env pkg file = Inr bc"
  shows "map fst bc =
    [''moveit_config_pkg'', ''move_group'', ''sample_size'', ''ik_solver_1'', ''ik_solver_2'',
     ''ik_solver_3'', ''ik_solver_1_kinematics_file'', ''ik_solver_2_kinematics_file'',
     ''ik_solver_3_kinematics_file'']"
  using assms unfolding load_benchmarking_config_def Let_def
  by (elim bind_err_Inr) (rule config_fields_keys)

lemma no_empty_key:
  assumes "load_benchmarking_config env pkg file = Inr bc"
  shows "dict_item bc [] = Inl (KeyError [])"
proof -
  have "[] \<notin> set (map fst bc)"
    unfolding load_benchmarking_config_keys[OF assms] by simp
  then have "map_of bc [] = None" by (simp add: map_of_eq_None_iff)
  then show ?thesis by (simp add: dict_item_def)
qed

lemma solver_keys_default: "solver_keys ''0'' = ([], [])"
  by (simp add: solver_keys_def)

lemma build_moveit_config_empty_key:
  assumes "load_benchmarking_config env pkg file = Inr bc"
  shows "build_moveit_config env rn bc [] \<noteq> Inr mc"
proof
  assume "build_moveit_config env rn bc [] = Inr mc"
  then show False
    unfolding build_moveit_config_def
    by (elim bind_err_Inr) (simp add: no_empty_key[OF assms])
qed

lemma get_cmdline_argument_default:
  assumes "find (prefix ''ik_solver_number:='') argv = None \<or>
           find (prefix ''ik_solver_number:='') argv = Some ''ik_solver_number:=0''"
  shows "get_cmdline_argument argv ''ik_solver_number'' = Inr ''0''"
  using assms by (auto simp: get_cmdline_argument_find split_str_def list_item_def)

text \<open>The sample installation, evaluated.\<close>

lemma bind_io_pair:
  "bind_io (out, Inr x) f = (case f x of (out', r) \<Rightarrow> (out @ out', r))"
  by (simp add: bind_io_def)

lemma sample_loaded:
  "load_benchmarking_config (sample_env argv sample_config) ''ik_benchmarking'' ''ik_benchmarking.yaml'' =
     Inr [(''moveit_config_pkg'', PyStr ''moveit_resources_panda_moveit_config''),
          (''move_group'', PyStr ''panda_arm''),
          (''sample_size'', PyInt 10000),
          (''ik_solver_1'', PyStr ''KDL''),
          (''ik_solver_2'', PyStr ''TRAC_IK''),
          (''ik_solver_3'', PyStr ''pick_ik''),
          (''ik_solver_1_kinematics_file'', PyStr ''kdl_kinematics.yaml''),
          (''ik_solver_2_kinematics_file'', PyStr ''trac_ik_kinematics.yaml''),
          (''ik_solver_3_kinematics_file'', PyStr ''pick_ik_kinematics.yaml'')]"
  by (simp add: load_benchmarking_config_def sample_paths config_fields_def get_config_data_def
      sample_config_def sample_solvers_def sample_solver_def)

lemma sample_robot_name:
  "get_robot_name ''moveit_resources_panda_moveit_config'' = ([], Inr ''moveit_resources_panda'')"
  by (simp add: get_robot_name_def split_str_def)

lemma sample_build:
  "build_moveit_config (sample_env argv sample_config) ''moveit_resources_panda''
     [(''moveit_config_pkg'', PyStr ''moveit_resources_panda_moveit_config''),
          (''move_group'', PyStr ''panda_arm''),
          (''sample_size'', PyInt 10000),
          (''ik_solver_1'', PyStr ''KDL''),
          (''ik_solver_2'', PyStr ''TRAC_IK''),
          (''ik_solver_3'', PyStr ''pick_ik''),
          (''ik_solver_1_kinematics_file'', PyStr ''kdl_kinematics.yaml''),
          (''ik_solver_2_kinematics_file'', PyStr ''trac_ik_kinematics.yaml''),
          (''ik_solver_3_kinematics_file'', PyStr ''pick_ik_kinematics.yaml'')]
     ''ik_solver_1_kinematics_file'' =
   Inr (sample_moveit_configs ''moveit_resources_panda''
          ''/opt/ros/share/moveit_resources_panda_moveit_config/config/kdl_kinematics.yaml'')"
  by (simp add: build_moveit_config_def dict_item_def sample_env_def path_join_def suffix_to_prefix)

lemma sample_solver_keys:
  "solver_keys ''1'' = (''ik_solver_1_kinematics_file'', ''ik_solver_1'')"
  by (simp add: solver_keys_def)

lemma sample_argument:
  "get_cmdline_argument [''launch'', ''ik_solver_number:=1''] ''ik_solver_number'' = Inr ''1''"
  by (simp add: split_str_def list_item_def)

lemma sample_launch:
  "generate_launch_description (sample_env [''launch'', ''ik_solver_number:=1''] sample_config) =
     ([Formatted (CHR 0x0A # '' Running calculations for IK Solver: '') (PyStr ''KDL'')
         ('' '' @ [CHR 0x0A])],
      Inr [Node \<lparr>package = ''ik_benchmarking'', executable = ''ik_benchmarking_server'',
                  node_output = ''screen'',
                  parameters =
                    [[(''robot_description'', PyStr ''moveit_resources_panda'')],
                     [(''robot_description_semantic'', PyStr ''moveit_resources_panda'')],
                     [(''robot_description_kinematics'', PyStr
                        ''/opt/ros/share/moveit_resources_panda_moveit_config/config/kdl_kinematics.yaml'')],
                     [(''move_group'', PyStr ''panda_arm''), (''sample_size'', PyInt 10000)]]\<rparr>,
           TimerAction 2
             [Node \<lparr>package = ''ik_benchmarking'', executable = ''ik_benchmarking_client'',
                    node_output = ''screen'',
                    parameters =
                      [[(''robot_description'', PyStr ''moveit_resources_panda'')],
                       [(''robot_description_semantic'', PyStr ''moveit_resources_panda'')],
                       [(''robot_description_kinematics'', PyStr
                          ''/opt/ros/share/moveit_resources_panda_moveit_config/config/kdl_kinematics.yaml'')],
                       [(''move_group'', PyStr ''panda_arm''), (''sample_size'', PyInt 10000),
                        (''ik_solver'', PyStr ''KDL'')]]\<rparr>],
           ik_solver_arg])"
proof -
  have argv: "sys_argv (sample_env [''launch'', ''ik_solver_number:=1''] sample_config) =
      [''launch'', ''ik_solver_number:=1'']"
    by (simp add: sample_env_def)
  show ?thesis
    unfolding generate_launch_description_def argv sample_argument sample_loaded
    by (simp add: dict_item_def sample_robot_name sample_solver_keys sample_build[unfolded dict_item_def]
        sample_moveit_configs_def bind_io_pair Let_def)
qed

text \<open>
  Claim C4. Every launch description that \<open>generate_launch_description\<close> returns has the
  server node as its first entity, declared directly (no timer, no condition, no event
  handler around it), and the client node inside a timer action of period 2 seconds, which
  is the second entity. What a period means in time is the launch framework's.
\<close>

theorem client_delayed_by_timer:
  assumes "generate_launch_description env = (out, Inr ld)"
  shows "\<exists>server client.
           ld = [Node server, TimerAction 2 [Node client], ik_solver_arg] \<and>
           executable server = ''ik_benchmarking_server'' \<and>
           executable client = ''ik_benchmarking_client''"
  using generate_launch_description_success[OF assms] by auto

theorem client_delayed_by_timer_witness:
  "\<exists>out ld server client.
     generate_launch_description (sample_env [''launch'', ''ik_solver_number:=1''] sample_config) =
       (out, Inr ld) \<and>
     ld = [Node server, TimerAction 2 [Node client], ik_solver_arg] \<and>
     executable server = ''ik_benchmarking_server'' \<and>
     executable client = ''ik_benchmarking_client''"
  using client_delayed_by_timer[OF sample_launch] sample_launch by blast

text \<open>
  Claim C7. In every launch description that \<open>generate_launch_description\<close> returns, the
  server and the client get the same three dictionaries of the built configuration
  (robot description, semantic description, kinematics) and the \<^verbatim>\<open>move_group\<close> and
  \<^verbatim>\<open>sample_size\<close> of the loaded configuration; the client's own dictionary has the
  third key \<^verbatim>\<open>ik_solver\<close>, the name of the chosen solver, and the server's has no such
  key.
\<close>

theorem node_parameters:
  assumes "generate_launch_description env = (out, Inr ld)"
  shows "\<exists>server client bc v rn mc mg ss solver.
           ld = [Node server, TimerAction 2 [Node client], ik_solver_arg] \<and>
           load_benchmarking_config env ''ik_benchmarking'' ''ik_benchmarking.yaml'' = Inr bc \<and>
           get_cmdline_argument (sys_argv env) ''ik_solver_number'' = Inr v \<and>
           build_moveit_config env rn bc (''ik_solver_'' @ v @ ''_kinematics_file'') = Inr mc \<and>
           dict_item bc ''move_group'' = Inr mg \<and>
           dict_item bc ''sample_size'' = Inr ss \<and>
           dict_item bc (''ik_solver_'' @ v) = Inr solver \<and>
           parameters server =
             [robot_description mc, robot_description_semantic mc, robot_description_kinematics mc,
              [(''move_group'', mg), (''sample_size'', ss)]] \<and>
           parameters client =
             [robot_description mc, robot_description_semantic mc, robot_description_kinematics mc,
              [(''move_group'', mg), (''sample_size'', ss), (''ik_solver'', solver)]]"
proof -
  from generate_launch_description_success[OF assms] obtain v bc p rn mc mg ss solver where
    s: "get_cmdline_argument (sys_argv env) ''ik_solver_number'' = Inr v"
    "load_benchmarking_config env ''ik_benchmarking'' ''ik_benchmarking.yaml'' = Inr bc"
    "build_moveit_config env rn bc (fst (solver_keys v)) = Inr mc"
    "dict_item bc ''move_group'' = Inr mg"
    "dict_item bc ''sample_size'' = Inr ss"
    "dict_item bc (snd (solver_keys v)) = Inr solver"
    "ld = [Node \<lparr>package = ''ik_benchmarking'', executable = ''ik_benchmarking_server'',
                  node_output = ''screen'',
                  parameters =
                    [robot_description mc, robot_description_semantic mc,
                     robot_description_kinematics mc,
                     [(''move_group'', mg), (''sample_size'', ss)]]\<rparr>,
           TimerAction 2
             [Node \<lparr>package = ''ik_benchmarking'', executable = ''ik_benchmarking_client'',
                    node_output = ''screen'',
                    parameters =
                      [robot_description mc, robot_description_semantic mc,
                       robot_description_kinematics mc,
                       [(''move_group'', mg), (''sample_size'', ss), (''ik_solver'', solver)]]\<rparr>],
           ik_solver_arg]"
    by blast
  have "snd (solver_keys v) = ''ik_solver_'' @ v"
  proof (cases "''0'' < v")
    case True
    then show ?thesis by (simp add: solver_keys_def)
  next
    case False
    then have "fst (solver_keys v) = []" by (simp add: solver_keys_def)
    with s(3) build_moveit_config_empty_key[OF s(2)] show ?thesis by simp
  qed
  moreover have "fst (solver_keys v) = ''ik_solver_'' @ v @ ''_kinematics_file''"
  proof (cases "''0'' < v")
    case True
    then show ?thesis by (simp add: solver_keys_def)
  next
    case False
    then have "fst (solver_keys v) = []" by (simp add: solver_keys_def)
    with s(3) build_moveit_config_empty_key[OF s(2)] show ?thesis by simp
  qed
  ultimately show ?thesis using s by (auto intro!: exI[of _ mc] exI[of _ rn])
qed

theorem node_parameters_witness:
  "\<exists>out ld server client.
     generate_launch_description (sample_env [''launch'', ''ik_solver_number:=1''] sample_config) =
       (out, Inr ld) \<and>
     ld = [Node server, TimerAction 2 [Node client], ik_solver_arg] \<and>
     parameters server =
       [[(''robot_description'', PyStr ''moveit_resources_panda'')],
        [(''robot_description_semantic'', PyStr ''moveit_resources_panda'')],
        [(''robot_description_kinematics'', PyStr
           ''/opt/ros/share/moveit_resources_panda_moveit_config/config/kdl_kinematics.yaml'')],
        [(''move_group'', PyStr ''panda_arm''), (''sample_size'', PyInt 10000)]] \<and>
     parameters client =
       [[(''robot_description'', PyStr ''moveit_resources_panda'')],
        [(''robot_description_semantic'', PyStr ''moveit_resources_panda'')],
        [(''robot_description_kinematics'', PyStr
           ''/opt/ros/share/moveit_resources_panda_moveit_config/config/kdl_kinematics.yaml'')],
        [(''move_group'', PyStr ''panda_arm''), (''sample_size'', PyInt 10000),
         (''ik_solver'', PyStr ''KDL'')]]"
  using node_parameters[OF sample_launch] sample_launch by simp

text \<open>
  Claim C8. Let \<^verbatim>\<open>ik_solver_number\<close> be absent from the command line, or let its first entry
  be \<^verbatim>\<open>ik_solver_number:=0\<close>, the declared default. Then \<open>get_cmdline_argument\<close> yields
  \<^verbatim>\<open>0\<close>, both keys stay empty strings, and \<open>generate_launch_description\<close> never returns
  a launch description. When the steps before the lookup succeed (the configuration is
  loaded, the robot name is inferred, the builder is constructed and the package is
  found) it raises \<^verbatim>\<open>KeyError\<close> on the empty string.
\<close>

theorem default_solver_number_fails:
  assumes "find (prefix ''ik_solver_number:='') (sys_argv env) = None \<or>
           find (prefix ''ik_solver_number:='') (sys_argv env) = Some ''ik_solver_number:=0''"
  shows "get_cmdline_argument (sys_argv env) ''ik_solver_number'' = Inr ''0'' \<and>
         solver_keys ''0'' = ([], []) \<and>
         (\<forall>out ld. generate_launch_description env \<noteq> (out, Inr ld)) \<and>
         (\<forall>bc p out rn share.
            load_benchmarking_config env ''ik_benchmarking'' ''ik_benchmarking.yaml'' = Inr bc \<and>
            dict_item bc ''moveit_config_pkg'' = Inr (PyStr p) \<and>
            get_robot_name p = (out, Inr rn) \<and>
            MoveItConfigsBuilder env rn = Inr () \<and>
            get_package_share_directory env p = Inr share \<longrightarrow>
            generate_launch_description env = (out, Inl (KeyError [])))"
proof (intro conjI allI impI)
  show v: "get_cmdline_argument (sys_argv env) ''ik_solver_number'' = Inr ''0''"
    using assms by (rule get_cmdline_argument_default)
  show "solver_keys ''0'' = ([], [])" by (rule solver_keys_default)
  show "generate_launch_description env \<noteq> (out, Inr ld)" for out ld
  proof
    assume "generate_launch_description env = (out, Inr ld)"
    from generate_launch_description_success[OF this] v obtain bc rn mc where
      "load_benchmarking_config env ''ik_benchmarking'' ''ik_benchmarking.yaml'' = Inr bc"
      "build_moveit_config env rn bc (fst (solver_keys ''0'')) = Inr mc"
      by auto
    then show False
      using build_moveit_config_empty_key[of env "''ik_benchmarking''" "''ik_benchmarking.yaml''" bc rn mc]
      by (simp add: solver_keys_default)
  qed
  fix bc p out rn share
  assume a: "load_benchmarking_config env ''ik_benchmarking'' ''ik_benchmarking.yaml'' = Inr bc \<and>
            dict_item bc ''moveit_config_pkg'' = Inr (PyStr p) \<and>
            get_robot_name p = (out, Inr rn) \<and>
            MoveItConfigsBuilder env rn = Inr () \<and>
            get_package_share_directory env p = Inr share"
  then have "dict_item bc [] = Inl (KeyError [])"
    by (intro no_empty_key[of env "''ik_benchmarking''" "''ik_benchmarking.yaml''"]) simp
  with a have "build_moveit_config env rn bc [] = Inl (KeyError [])"
    by (simp add: build_moveit_config_def)
  with a v show "generate_launch_description env = (out, Inl (KeyError []))"
    by (simp add: generate_launch_description_def solver_keys_default bind_io_def lift_def)
qed

theorem default_solver_number_fails_witness:
  "(find (prefix ''ik_solver_number:='') (sys_argv (sample_env [''launch''] sample_config)) = None \<or>
    find (prefix ''ik_solver_number:='') (sys_argv (sample_env [''launch''] sample_config)) =
      Some ''ik_solver_number:=0'') \<and>
   get_cmdline_argument (sys_argv (sample_env [''launch''] sample_config)) ''ik_solver_number'' =
     Inr ''0'' \<and>
   dict_item
     [(''moveit_config_pkg'', PyStr ''moveit_resources_panda_moveit_config''),
      (''move_group'', PyStr ''panda_arm''),
      (''sample_size'', PyInt 10000),
      (''ik_solver_1'', PyStr ''KDL''),
      (''ik_solver_2'', PyStr ''TRAC_IK''),
      (''ik_solver_3'', PyStr ''pick_ik''),
      (''ik_solver_1_kinematics_file'', PyStr ''kdl_kinematics.yaml''),
      (''ik_solver_2_kinematics_file'', PyStr ''trac_ik_kinematics.yaml''),
      (''ik_solver_3_kinematics_file'', PyStr ''pick_ik_kinematics.yaml'')]
     ''moveit_config_pkg'' = Inr (PyStr ''moveit_resources_panda_moveit_config'') \<and>
   get_robot_name ''moveit_resources_panda_moveit_config'' = ([], Inr ''moveit_resources_panda'') \<and>
   MoveItConfigsBuilder (sample_env [''launch''] sample_config) ''moveit_resources_panda'' = Inr () \<and>
   get_package_share_directory (sample_env [''launch''] sample_config)
     ''moveit_resources_panda_moveit_config'' =
     Inr ''/opt/ros/share/moveit_resources_panda_moveit_config'' \<and>
   generate_launch_description (sample_env [''launch''] sample_config) = ([], Inl (KeyError []))"
proof -
  have absent:
    "find (prefix ''ik_solver_number:='') (sys_argv (sample_env [''launch''] sample_config)) = None \<or>
     find (prefix ''ik_solver_number:='') (sys_argv (sample_env [''launch''] sample_config)) =
       Some ''ik_solver_number:=0''"
    by (simp add: sample_env_def)
  note fails = default_solver_number_fails[OF absent]
  have pkg: "dict_item
     [(''moveit_config_pkg'', PyStr ''moveit_resources_panda_moveit_config''),
      (''move_group'', PyStr ''panda_arm''),
      (''sample_size'', PyInt 10000),
      (''ik_solver_1'', PyStr ''KDL''),
      (''ik_solver_2'', PyStr ''TRAC_IK''),
      (''ik_solver_3'', PyStr ''pick_ik''),
      (''ik_solver_1_kinematics_file'', PyStr ''kdl_kinematics.yaml''),
      (''ik_solver_2_kinematics_file'', PyStr ''trac_ik_kinematics.yaml''),
      (''ik_solver_3_kinematics_file'', PyStr ''pick_ik_kinematics.yaml'')]
     ''moveit_config_pkg'' = Inr (PyStr ''moveit_resources_panda_moveit_config'')"
    by (simp add: dict_item_def)
  have builder:
    "MoveItConfigsBuilder (sample_env [''launch''] sample_config) ''moveit_resources_panda'' = Inr ()"
    by (simp add: sample_env_def)
  have share: "get_package_share_directory (sample_env [''launch''] sample_config)
     ''moveit_resources_panda_moveit_config'' =
     Inr ''/opt/ros/share/moveit_resources_panda_moveit_config''"
    by (simp add: sample_paths)
  from fails have v:
    "get_cmdline_argument (sys_argv (sample_env [''launch''] sample_config)) ''ik_solver_number'' =
       Inr ''0''"
    by (rule conjunct1)
  from fails sample_loaded[of "[''launch'']"] pkg sample_robot_name builder share
  have "generate_launch_description (sample_env [''launch''] sample_config) = ([], Inl (KeyError []))"
    by blast
  with absent v pkg sample_robot_name builder share show ?thesis by (intro conjI)
qed

end
